theory Spec2Isabelle
  imports Complex_Main
begin

section \<open>The defect tracker\<close>

text \<open>
  The class \<open>DefectTracker\<close> of
  \<^verbatim>\<open>quality-assurance-skill/scripts/defect_tracker.py\<close>
  keeps two SQLite tables, \<open>defects\<close> and \<open>defect_history\<close>, and every
  method of \<open>DefectTracker\<close> reads or writes them through one connection. The model
  passes the database explicitly: a method takes the database and returns its result
  together with the database it leaves behind.

  Conventions of the model.
  \<^item> A column that may hold NULL is an \<open>option\<close>; Python's \<open>None\<close> is \<open>None\<close>.
  \<^item> A parameter annotated \<open>str\<close> is a \<open>string\<close>; a parameter with default
    \<open>None\<close> is an \<open>option\<close>. The required fields of \<open>create_defect\<close> are options
    as well, so that a call which leaves one out (passes \<open>None\<close>) can be written down.
  \<^item> The date columns hold the text of \<open>datetime.now().isoformat()\<close>. The model keeps
    the instant that text denotes, as a rational number of days.
  \<^item> A Python \<open>float\<close> is a double; the model keeps the real number it stands for. The
    floating-point arithmetic of SQLite and Python is not modelled: the operations on
    doubles that \<open>get_metrics\<close> goes through are parameters of the model
    (\<open>float_ops\<close>), and what is proved of \<open>get_metrics\<close> holds whatever they compute.
  \<^item> Each \<open>datetime.now()\<close> a method performs is an argument of the model, in the
    order of the calls.
\<close>

subsection \<open>Enumerations\<close>

datatype DefectSeverity = CRITICAL | MAJOR | MODERATE | MINOR | TRIVIAL

datatype DefectStatus =
  NEW | OPEN | ASSIGNED | IN_PROGRESS | FIXED | VERIFIED | CLOSED | REOPENED | DEFERRED | REJECTED

datatype DefectPriority = IMMEDIATE | HIGH | MEDIUM | LOW

fun DefectSeverity_value :: "DefectSeverity \<Rightarrow> int" where
  "DefectSeverity_value CRITICAL = 1"
| "DefectSeverity_value MAJOR = 2"
| "DefectSeverity_value MODERATE = 3"
| "DefectSeverity_value MINOR = 4"
| "DefectSeverity_value TRIVIAL = 5"

fun DefectStatus_value :: "DefectStatus \<Rightarrow> string" where
  "DefectStatus_value NEW = ''New''"
| "DefectStatus_value OPEN = ''Open''"
| "DefectStatus_value ASSIGNED = ''Assigned''"
| "DefectStatus_value IN_PROGRESS = ''In Progress''"
| "DefectStatus_value FIXED = ''Fixed''"
| "DefectStatus_value VERIFIED = ''Verified''"
| "DefectStatus_value CLOSED = ''Closed''"
| "DefectStatus_value REOPENED = ''Reopened''"
| "DefectStatus_value DEFERRED = ''Deferred''"
| "DefectStatus_value REJECTED = ''Rejected''"

fun DefectPriority_value :: "DefectPriority \<Rightarrow> int" where
  "DefectPriority_value IMMEDIATE = 1"
| "DefectPriority_value HIGH = 2"
| "DefectPriority_value MEDIUM = 3"
| "DefectPriority_value LOW = 4"

text \<open>\<open>DefectSeverity(sev).name\<close> and \<open>DefectPriority(pri).name\<close>: the lookup of a
  member by its value raises \<open>ValueError\<close> when no member has the value (here \<open>None\<close>).\<close>

definition DefectSeverity_name :: "int \<Rightarrow> string option" where
  "DefectSeverity_name sev =
     (if sev = 1 then Some ''CRITICAL''
      else if sev = 2 then Some ''MAJOR''
      else if sev = 3 then Some ''MODERATE''
      else if sev = 4 then Some ''MINOR''
      else if sev = 5 then Some ''TRIVIAL''
      else None)"

definition DefectPriority_name :: "int \<Rightarrow> string option" where
  "DefectPriority_name pri =
     (if pri = 1 then Some ''IMMEDIATE''
      else if pri = 2 then Some ''HIGH''
      else if pri = 3 then Some ''MEDIUM''
      else if pri = 4 then Some ''LOW''
      else None)"

subsection \<open>The tables\<close>

type_synonym timestamp = rat

text \<open>A row of \<open>defects\<close>; the field \<open>d_c\<close> is the column \<open>c\<close>.\<close>

record defect =
  d_id :: int
  d_title :: string
  d_description :: "string option"
  d_severity :: int
  d_priority :: int
  d_status :: string
  d_module :: "string option"
  d_found_by :: string
  d_assigned_to :: "string option"
  d_found_date :: timestamp
  d_fixed_date :: "timestamp option"
  d_verified_date :: "timestamp option"
  d_closed_date :: "timestamp option"
  d_environment :: "string option"
  d_steps_to_reproduce :: "string option"
  d_expected_result :: "string option"
  d_actual_result :: "string option"
  d_root_cause :: "string option"
  d_resolution :: "string option"
  d_test_case_id :: "string option"
  d_build_version :: "string option"
  d_attachments :: "string option"

text \<open>A row of \<open>defect_history\<close>; the field \<open>h_c\<close> is the column \<open>c\<close>.\<close>

record history_entry =
  h_id :: int
  h_defect_id :: int
  h_changed_by :: string
  h_change_date :: timestamp
  h_field_changed :: "string option"
  h_old_value :: "string option"
  h_new_value :: "string option"
  h_comment :: "string option"

text \<open>
  The database: each table is the list of its rows in rowid order, with the largest
  rowid the table has ever given out (\<open>AUTOINCREMENT\<close> keeps it in \<open>sqlite_sequence\<close>).
  SQLite does not enforce the \<open>FOREIGN KEY\<close> of \<open>defect_history\<close> unless
  \<open>PRAGMA foreign_keys\<close> is switched on, which the tracker never does, so the model does
  not enforce it either.
\<close>

record db =
  defects :: "defect list"
  defects_seq :: int
  defect_history :: "history_entry list"
  defect_history_seq :: int

definition empty_db :: db where
  "empty_db = \<lparr>defects = [], defects_seq = 0, defect_history = [], defect_history_seq = 0\<rparr>"

text \<open>The rowid an \<open>INTEGER PRIMARY KEY AUTOINCREMENT\<close> column gives a new row: one more
  than the largest rowid in the table or ever given out.\<close>

definition next_rowid :: "int \<Rightarrow> int list \<Rightarrow> int" where
  "next_rowid seq ids = fold max ids seq + 1"

text \<open>\<open>SELECT ... FROM defects WHERE id = ?\<close> followed by \<open>fetchone()\<close>.\<close>

definition fetch_defect :: "db \<Rightarrow> int \<Rightarrow> defect option" where
  "fetch_defect s defect_id = find (\<lambda>d. d_id d = defect_id) (defects s)"

text \<open>\<open>UPDATE defects SET ... WHERE id = ?\<close>, the assignments given as a function on rows.\<close>

definition update_defects :: "db \<Rightarrow> int \<Rightarrow> (defect \<Rightarrow> defect) \<Rightarrow> db" where
  "update_defects s defect_id f =
     s\<lparr>defects := map (\<lambda>d. if d_id d = defect_id then f d else d) (defects s)\<rparr>"

text \<open>The history rows of one defect, oldest first (the specification's \<open>listHistory\<close>;
  the tracker has no method for it).\<close>

definition history_of :: "db \<Rightarrow> int \<Rightarrow> history_entry list" where
  "history_of s defect_id = filter (\<lambda>h. h_defect_id h = defect_id) (defect_history s)"

subsection \<open>Writing\<close>

datatype error = AttributeError | IntegrityError | ValueError

definition log_change ::
  "db \<Rightarrow> int \<Rightarrow> string \<Rightarrow> string option \<Rightarrow> string option \<Rightarrow> string option \<Rightarrow>
   string option \<Rightarrow> timestamp \<Rightarrow> db" where
  "log_change s defect_id changed_by field_changed old_value new_value comment now =
     (let rowid = next_rowid (defect_history_seq s) (map h_id (defect_history s)) in
      s\<lparr>defect_history := defect_history s @
           [\<lparr>h_id = rowid, h_defect_id = defect_id, h_changed_by = changed_by,
             h_change_date = now, h_field_changed = field_changed,
             h_old_value = old_value, h_new_value = new_value, h_comment = comment\<rparr>],
        defect_history_seq := rowid\<rparr>)"

text \<open>
  \<open>create_defect\<close>. The tuple of values is built before the \<open>INSERT\<close> runs, so
  \<open>severity.value\<close> and \<open>priority.value\<close> raise \<open>AttributeError\<close> on \<open>None\<close> first;
  then the \<open>INSERT\<close> raises \<open>IntegrityError\<close> when \<open>title\<close> or \<open>found_by\<close> is NULL
  (both columns are \<open>NOT NULL\<close>). \<open>kwargs\<close> is the dictionary of the extra keyword
  arguments. \<open>now_found\<close> is the clock reading kept as \<open>found_date\<close>, \<open>now_log\<close> the
  one \<open>_log_change\<close> takes.
\<close>

definition create_defect ::
  "db \<Rightarrow> string option \<Rightarrow> string option \<Rightarrow> DefectSeverity option \<Rightarrow>
   DefectPriority option \<Rightarrow> string option \<Rightarrow> string option \<Rightarrow> (string \<rightharpoonup> string) \<Rightarrow>
   timestamp \<Rightarrow> timestamp \<Rightarrow> (error + int) \<times> db" where
  "create_defect s title description severity priority found_by module' kwargs
       now_found now_log =
     (case severity of
        None \<Rightarrow> (Inl AttributeError, s)
      | Some sev \<Rightarrow>
     (case priority of
        None \<Rightarrow> (Inl AttributeError, s)
      | Some pri \<Rightarrow>
     (case title of
        None \<Rightarrow> (Inl IntegrityError, s)
      | Some title_text \<Rightarrow>
     (case found_by of
        None \<Rightarrow> (Inl IntegrityError, s)
      | Some finder \<Rightarrow>
          (let defect_id = next_rowid (defects_seq s) (map d_id (defects s));
               row = \<lparr>d_id = defect_id, d_title = title_text, d_description = description,
                 d_severity = DefectSeverity_value sev,
                 d_priority = DefectPriority_value pri,
                 d_status = DefectStatus_value NEW, d_module = module',
                 d_found_by = finder, d_assigned_to = None, d_found_date = now_found,
                 d_fixed_date = None, d_verified_date = None, d_closed_date = None,
                 d_environment = kwargs ''environment'',
                 d_steps_to_reproduce = kwargs ''steps_to_reproduce'',
                 d_expected_result = kwargs ''expected_result'',
                 d_actual_result = kwargs ''actual_result'',
                 d_root_cause = None, d_resolution = None,
                 d_test_case_id = kwargs ''test_case_id'',
                 d_build_version = kwargs ''build_version'',
                 d_attachments = None\<rparr>;
               s1 = s\<lparr>defects := defects s @ [row], defects_seq := defect_id\<rparr>
           in (Inr defect_id,
               log_change s1 defect_id finder None None (Some (DefectStatus_value NEW))
                 (Some ''Defect created'') now_log))))))"

text \<open>\<open>update_status\<close>: \<open>now_date\<close> is the clock reading a Fixed, Verified or Closed
  date takes (no reading is made for another status), \<open>now_log\<close> the one of
  \<open>_log_change\<close>.\<close>

definition update_status ::
  "db \<Rightarrow> int \<Rightarrow> DefectStatus \<Rightarrow> string \<Rightarrow> string option \<Rightarrow> timestamp \<Rightarrow> timestamp \<Rightarrow>
   bool \<times> db" where
  "update_status s defect_id new_status changed_by comment now_date now_log =
     (case fetch_defect s defect_id of
        None \<Rightarrow> (False, s)
      | Some result \<Rightarrow>
          (let old_status = d_status result;
               s1 = update_defects s defect_id
                 (\<lambda>d. if new_status = FIXED then
                        d\<lparr>d_status := DefectStatus_value new_status, d_fixed_date := Some now_date\<rparr>
                      else if new_status = VERIFIED then
                        d\<lparr>d_status := DefectStatus_value new_status, d_verified_date := Some now_date\<rparr>
                      else if new_status = CLOSED then
                        d\<lparr>d_status := DefectStatus_value new_status, d_closed_date := Some now_date\<rparr>
                      else d\<lparr>d_status := DefectStatus_value new_status\<rparr>)
           in (True,
               log_change s1 defect_id changed_by (Some ''status'') (Some old_status)
                 (Some (DefectStatus_value new_status)) comment now_log)))"

definition assign_defect ::
  "db \<Rightarrow> int \<Rightarrow> string \<Rightarrow> string \<Rightarrow> string option \<Rightarrow> timestamp \<Rightarrow> bool \<times> db" where
  "assign_defect s defect_id assignee assigned_by comment now_log =
     (case fetch_defect s defect_id of
        None \<Rightarrow> (False, s)
      | Some result \<Rightarrow>
          (let old_assignee = d_assigned_to result;
               s1 = (if d_status result = DefectStatus_value NEW then
                       update_defects s defect_id
                         (\<lambda>d. d\<lparr>d_assigned_to := Some assignee,
                                d_status := DefectStatus_value ASSIGNED\<rparr>)
                     else
                       update_defects s defect_id (\<lambda>d. d\<lparr>d_assigned_to := Some assignee\<rparr>))
           in (True,
               log_change s1 defect_id assigned_by (Some ''assigned_to'') old_assignee
                 (Some assignee) comment now_log)))"

text \<open>\<open>add_resolution\<close>: \<open>if resolved_by:\<close> holds for a string that is not empty. The
  comment is the f-string \<open>f"Root cause: {root_cause}"\<close>, which prints \<open>None\<close> as
  \<open>None\<close>.\<close>

definition truthy :: "string option \<Rightarrow> bool" where
  "truthy v = (case v of None \<Rightarrow> False | Some t \<Rightarrow> t \<noteq> [])"

definition add_resolution ::
  "db \<Rightarrow> int \<Rightarrow> string \<Rightarrow> string option \<Rightarrow> string option \<Rightarrow> timestamp \<Rightarrow> bool \<times> db" where
  "add_resolution s defect_id resolution root_cause resolved_by now_log =
     (let s1 = update_defects s defect_id
                 (\<lambda>d. d\<lparr>d_resolution := Some resolution, d_root_cause := root_cause\<rparr>)
      in case resolved_by of
           None \<Rightarrow> (True, s1)
         | Some resolver \<Rightarrow>
             (if truthy resolved_by then
                (True,
                 log_change s1 defect_id resolver (Some ''resolution'') None (Some resolution)
                   (Some (''Root cause: '' @ (case root_cause of None \<Rightarrow> ''None'' | Some rc \<Rightarrow> rc)))
                   now_log)
              else (True, s1)))"

subsection \<open>Reading\<close>

text \<open>
  The keyword arguments of \<open>search_defects\<close>. For each of the five keys the method looks
  at, the field is \<open>None\<close> when the key is absent and \<open>Some v\<close> when it is given with
  the value \<open>v\<close>, where \<open>v = None\<close> is Python's \<open>None\<close> (bound as NULL). A value has
  the type of its column. The method ignores every other key.
\<close>

record criteria =
  c_status :: "string option option"
  c_severity :: "int option option"
  c_priority :: "int option option"
  c_assigned_to :: "string option option"
  c_module :: "string option option"

definition no_criteria :: criteria where
  "no_criteria = \<lparr>c_status = None, c_severity = None, c_priority = None,
     c_assigned_to = None, c_module = None\<rparr>"

text \<open>SQL's \<open>=\<close> in a \<open>WHERE\<close> clause: a comparison with NULL is NULL, and the row is
  not selected.\<close>

definition sql_eq :: "'a option \<Rightarrow> 'a option \<Rightarrow> bool" where
  "sql_eq a b = (case a of None \<Rightarrow> False | Some x \<Rightarrow> (case b of None \<Rightarrow> False | Some y \<Rightarrow> x = y))"

text \<open>\<open>search_defects\<close> grows the \<open>WHERE\<close> clause by one \<open>AND column = ?\<close> for each key
  that is present; \<open>conds\<close> is the list of these conditions, each a test on a row. The
  rows come back in rowid order, each as the dictionary of its columns.\<close>

definition search_defects :: "db \<Rightarrow> criteria \<Rightarrow> defect list" where
  "search_defects s criteria =
     (let conds = [];
          conds = (case c_status criteria of None \<Rightarrow> conds
                   | Some v \<Rightarrow> conds @ [\<lambda>d. sql_eq (Some (d_status d)) v]);
          conds = (case c_severity criteria of None \<Rightarrow> conds
                   | Some v \<Rightarrow> conds @ [\<lambda>d. sql_eq (Some (d_severity d)) v]);
          conds = (case c_priority criteria of None \<Rightarrow> conds
                   | Some v \<Rightarrow> conds @ [\<lambda>d. sql_eq (Some (d_priority d)) v]);
          conds = (case c_assigned_to criteria of None \<Rightarrow> conds
                   | Some v \<Rightarrow> conds @ [\<lambda>d. sql_eq (d_assigned_to d) v]);
          conds = (case c_module criteria of None \<Rightarrow> conds
                   | Some v \<Rightarrow> conds @ [\<lambda>d. sql_eq (d_module d) v])
      in filter (\<lambda>d. list_all (\<lambda>cond. cond d) conds) (defects s))"

text \<open>\<open>SELECT k, COUNT(*) ... GROUP BY k\<close> over the keys of the selected rows: one row
  for each distinct key, with the number of rows that have it.\<close>

definition group_count :: "'a list \<Rightarrow> ('a \<times> nat) list" where
  "group_count ks = map (\<lambda>k. (k, count_list ks k)) (remdups ks)"

text \<open>The loop \<open>for sev, count in fetchall(): counts[Enum(sev).name] = count\<close>; the
  result is \<open>None\<close> when a lookup raises \<open>ValueError\<close>.\<close>

fun name_counts :: "(int \<Rightarrow> string option) \<Rightarrow> (int \<times> nat) list \<Rightarrow> (string \<times> nat) list option" where
  "name_counts name [] = Some []"
| "name_counts name ((v, n) # rows) =
     (case name v of
        None \<Rightarrow> None
      | Some k \<Rightarrow> (case name_counts name rows of None \<Rightarrow> None | Some rest \<Rightarrow> Some ((k, n) # rest)))"

text \<open>
  The floating-point operations behind \<open>avg_resolution_days\<close>, each as the function
  from its arguments to the double it returns:
  \<^item> \<open>julianday_diff closed found\<close> is SQLite's
    \<open>julianday(closed_date) - julianday(found_date)\<close> on the texts of the two instants;
  \<^item> \<open>avg_double xs\<close> is SQLite's \<open>AVG\<close> over the doubles \<open>xs\<close> of at least one row;
  \<^item> \<open>round_1 x\<close> is Python's \<open>round(x, 1)\<close>.
\<close>

record float_ops =
  julianday_diff :: "timestamp \<Rightarrow> timestamp \<Rightarrow> real"
  avg_double :: "real list \<Rightarrow> real"
  round_1 :: "real \<Rightarrow> real"

text \<open>SQL's \<open>AVG\<close>: NULL over no rows.\<close>

definition sql_avg :: "float_ops \<Rightarrow> real list \<Rightarrow> real option" where
  "sql_avg fl xs = (if xs = [] then None else Some (avg_double fl xs))"

text \<open>The days from \<open>found_date\<close> to \<open>closed_date\<close> of the rows with
  \<open>status = 'Closed' AND closed_date IS NOT NULL\<close>.\<close>

definition resolution_days :: "float_ops \<Rightarrow> db \<Rightarrow> real list" where
  "resolution_days fl s =
     concat (map (\<lambda>d. case d_closed_date d of
                         None \<Rightarrow> []
                       | Some closed_date \<Rightarrow>
                           if d_status d = ''Closed''
                           then [julianday_diff fl closed_date (d_found_date d)] else [])
                 (defects s))"

text \<open>The dictionary \<open>get_metrics\<close> returns. A dictionary of counts is the list of its
  items; \<open>avg_resolution_days\<close> is \<open>None\<close> for Python's \<open>None\<close>. The test
  \<open>if result[0]\<close> fails for \<open>None\<close> and for a double that is zero.\<close>

record metrics =
  by_status :: "(string \<times> nat) list"
  by_severity :: "(string \<times> nat) list"
  by_priority :: "(string \<times> nat) list"
  avg_resolution_days :: "real option"
  by_module :: "(string \<times> nat) list"
  reopened_count :: nat

definition get_metrics :: "float_ops \<Rightarrow> db \<Rightarrow> error + metrics" where
  "get_metrics fl s =
     (let status_counts = group_count (map d_status (defects s)) in
      case name_counts DefectSeverity_name (group_count (map d_severity (defects s))) of
        None \<Rightarrow> Inl ValueError
      | Some severity_counts \<Rightarrow>
     (case name_counts DefectPriority_name (group_count (map d_priority (defects s))) of
        None \<Rightarrow> Inl ValueError
      | Some priority_counts \<Rightarrow>
          (let result = sql_avg fl (resolution_days fl s);
               avg = (case result of
                        None \<Rightarrow> None
                      | Some mean \<Rightarrow> if mean \<noteq> 0 then Some (round_1 fl mean) else None);
               module_counts = group_count (concat (map (\<lambda>d. case d_module d of
                                 None \<Rightarrow> [] | Some m \<Rightarrow> [m]) (defects s)));
               reopened = length (filter (\<lambda>d. d_status d = ''Reopened'') (defects s))
           in Inr \<lparr>by_status = status_counts, by_severity = severity_counts,
                   by_priority = priority_counts, avg_resolution_days = avg,
                   by_module = module_counts, reopened_count = reopened\<rparr>)))"

subsection \<open>Sequences of calls on one defect\<close>

text \<open>A call of one of the three methods that change a defect, with the arguments it is
  given after the defect's id and the clock readings it makes.\<close>

datatype call =
  UpdateStatus DefectStatus string "string option" timestamp timestamp
| AssignDefect string string "string option" timestamp
| AddResolution string "string option" "string option" timestamp

fun run_call :: "int \<Rightarrow> call \<Rightarrow> db \<Rightarrow> bool \<times> db" where
  "run_call defect_id (UpdateStatus new_status changed_by comment now_date now_log) s =
     update_status s defect_id new_status changed_by comment now_date now_log"
| "run_call defect_id (AssignDefect assignee assigned_by comment now_log) s =
     assign_defect s defect_id assignee assigned_by comment now_log"
| "run_call defect_id (AddResolution resolution root_cause resolved_by now_log) s =
     add_resolution s defect_id resolution root_cause resolved_by now_log"

text \<open>The calls run one after the other; the result says whether every call returned
  \<open>True\<close>.\<close>

fun run_calls :: "int \<Rightarrow> call list \<Rightarrow> db \<Rightarrow> bool \<times> db" where
  "run_calls defect_id [] s = (True, s)"
| "run_calls defect_id (c # cs) s =
     (let (ok, s1) = run_call defect_id c s;
          (oks, s2) = run_calls defect_id cs s1
      in (ok \<and> oks, s2))"

text \<open>Whether a call writes a history row when it succeeds, and the clock reading the
  row then carries.\<close>

fun logs :: "call \<Rightarrow> bool" where
  "logs (UpdateStatus new_status changed_by comment now_date now_log) = True"
| "logs (AssignDefect assignee assigned_by comment now_log) = True"
| "logs (AddResolution resolution root_cause resolved_by now_log) = truthy resolved_by"

fun log_time :: "call \<Rightarrow> timestamp" where
  "log_time (UpdateStatus new_status changed_by comment now_date now_log) = now_log"
| "log_time (AssignDefect assignee assigned_by comment now_log) = now_log"
| "log_time (AddResolution resolution root_cause resolved_by now_log) = now_log"

subsection \<open>Rows every method leaves well formed\<close>

text \<open>\<open>get_metrics\<close> looks up the enum member of every severity and priority in the
  table, and raises when a value has none. \<open>create_defect\<close> is the only writer of the
  two columns and writes the value of a member, so the lookup succeeds on every database
  the tracker has built.\<close>

definition enum_columns_ok :: "db \<Rightarrow> bool" where
  "enum_columns_ok s =
     list_all (\<lambda>d. DefectSeverity_name (d_severity d) \<noteq> None \<and>
                    DefectPriority_name (d_priority d) \<noteq> None) (defects s)"

subsection \<open>Example databases\<close>

text \<open>One defect, as \<open>create_defect\<close> leaves it in an empty database at time 0.\<close>

definition crash_report :: defect where
  "crash_report = \<lparr>d_id = 1, d_title = ''crash on save'', d_description = None,
     d_severity = 2, d_priority = 2, d_status = ''New'', d_module = None,
     d_found_by = ''amy'', d_assigned_to = None, d_found_date = 0,
     d_fixed_date = None, d_verified_date = None, d_closed_date = None,
     d_environment = None, d_steps_to_reproduce = None, d_expected_result = None,
     d_actual_result = None, d_root_cause = None, d_resolution = None,
     d_test_case_id = None, d_build_version = None, d_attachments = None\<rparr>"

definition crash_created :: history_entry where
  "crash_created = \<lparr>h_id = 1, h_defect_id = 1, h_changed_by = ''amy'', h_change_date = 0,
     h_field_changed = None, h_old_value = None, h_new_value = Some ''New'',
     h_comment = Some ''Defect created''\<rparr>"

definition one_defect :: db where
  "one_defect = \<lparr>defects = [crash_report], defects_seq = 1,
     defect_history = [crash_created], defect_history_seq = 1\<rparr>"

text \<open>A second defect, in module \<open>ui\<close>, open and assigned.\<close>

definition typo_report :: defect where
  "typo_report = crash_report\<lparr>d_id := 2, d_title := ''typo in menu'', d_severity := 4,
     d_priority := 4, d_status := ''Open'', d_module := Some ''ui'',
     d_assigned_to := Some ''bob'', d_found_date := 1\<rparr>"

definition two_defects :: db where
  "two_defects = one_defect\<lparr>defects := [crash_report, typo_report], defects_seq := 2\<rparr>"

text \<open>The defect marked Fixed at time 2, and then reopened at time 3 and marked Fixed
  again at time 4.\<close>

definition fixed_once :: db where
  "fixed_once = snd (update_status one_defect 1 FIXED ''bob'' None 2 2)"

definition fixed_twice :: db where
  "fixed_twice =
     snd (update_status (snd (update_status fixed_once 1 REOPENED ''amy'' None 3 3))
            1 FIXED ''bob'' None 4 4)"

text \<open>The defect, found on day 0, closed on day 5; closed after a twenty-fifth of a day
  (57 minutes 36 seconds); and closed at the very reading of the clock it was found at.\<close>

definition closed_on_day_five :: db where
  "closed_on_day_five = snd (update_status one_defect 1 CLOSED ''amy'' None 5 5)"

definition closed_within_the_hour :: db where
  "closed_within_the_hour = snd (update_status one_defect 1 CLOSED ''amy'' None (1 / 25) (1 / 25))"

definition closed_at_once :: db where
  "closed_at_once = snd (update_status one_defect 1 CLOSED ''amy'' None 0 0)"

text \<open>Floating-point operations without rounding error, to run \<open>get_metrics\<close> on the
  examples: the difference of the instants, the mean, and the nearest multiple of one
  tenth (a tie going to the even one).\<close>

definition nearest_tenth :: "real \<Rightarrow> real" where
  "nearest_tenth x =
     (let n = \<lfloor>x * 10\<rfloor>; r = x * 10 - of_int n
      in (if r < 1 / 2 then of_int n
          else if 1 / 2 < r then of_int (n + 1)
          else if even n then of_int n else of_int (n + 1)) / 10)"

definition exact_arithmetic :: float_ops where
  "exact_arithmetic = \<lparr>julianday_diff = (\<lambda>closed_date found_date. of_rat (closed_date - found_date)),
     avg_double = (\<lambda>xs. sum_list xs / of_nat (length xs)),
     round_1 = nearest_tenth\<rparr>"

text \<open>The defect with a resolution and a root cause on record.\<close>

definition resolved_with_cause :: db where
  "resolved_with_cause =
     snd (add_resolution one_defect 1 ''patched'' (Some ''race condition'') (Some ''bob'') 1)"

text \<open>An empty database in which \<open>add_resolution\<close> was called for defect 1, which does
  not exist, with \<open>resolved_by\<close> given.\<close>

definition orphan_history :: db where
  "orphan_history = snd (add_resolution empty_db 1 ''patched'' None (Some ''bob'') 0)"

section \<open>Auxiliary facts\<close>

lemmas run_defs = create_defect_def update_status_def assign_defect_def add_resolution_def
  log_change_def next_rowid_def fetch_defect_def update_defects_def history_of_def truthy_def
  Let_def

lemmas scenario_defs = empty_db_def one_defect_def two_defects_def crash_report_def
  typo_report_def crash_created_def

lemma create_crash_report:
  "create_defect empty_db (Some ''crash on save'') None (Some MAJOR) (Some HIGH) (Some ''amy'')
     None Map.empty 0 0 = (Inr 1, one_defect)"
  by (simp add: run_defs scenario_defs)

subsection \<open>Selecting and updating by id\<close>

lemma find_map_same_id:
  assumes "\<And>d. d_id (f d) = d_id d"
  shows "find (\<lambda>d. d_id d = j) (map (\<lambda>d. if d_id d = i then f d else d) xs)
       = map_option (\<lambda>d. if d_id d = i then f d else d) (find (\<lambda>d. d_id d = j) xs)"
  using assms by (induction xs) auto

lemma fetch_defect_id: "fetch_defect s j = Some d \<Longrightarrow> d_id d = j"
  by (auto simp: fetch_defect_def find_Some_iff)

lemma fetch_update_defects:
  assumes "\<And>d. d_id (f d) = d_id d"
  shows "fetch_defect (update_defects s i f) j
       = (if j = i then map_option f (fetch_defect s j) else fetch_defect s j)"
proof -
  have "fetch_defect (update_defects s i f) j
      = map_option (\<lambda>d. if d_id d = i then f d else d) (fetch_defect s j)"
    using find_map_same_id [OF assms] by (simp add: fetch_defect_def update_defects_def)
  then show ?thesis
    by (cases "fetch_defect s j") (auto dest: fetch_defect_id)
qed

lemma defects_log_change:
  "defects (log_change s i who f ov nv c now) = defects s"
  by (simp add: log_change_def Let_def)

lemma fetch_log_change:
  "fetch_defect (log_change s i who f ov nv c now) j = fetch_defect s j"
  by (simp add: fetch_defect_def defects_log_change)

lemma history_update_defects:
  "defect_history (update_defects s i f) = defect_history s"
  by (simp add: update_defects_def)

lemma history_of_update_defects:
  "history_of (update_defects s i f) j = history_of s j"
  by (simp add: history_of_def history_update_defects)

lemma history_of_log_change:
  "map h_change_date (history_of (log_change s i who f ov nv c now) j)
     = map h_change_date (history_of s j) @ (if i = j then [now] else [])"
  by (simp add: history_of_def log_change_def Let_def)

lemma find_append_None: "find P xs = None \<Longrightarrow> find P (xs @ ys) = find P ys"
  by (induction xs) (auto split: if_splits)

subsection \<open>Fresh rowids\<close>

lemma fold_max_lower: "seq \<le> fold max ids (seq :: int)"
proof (induction ids arbitrary: seq)
  case Nil
  then show ?case by simp
next
  case (Cons a ids)
  from Cons.IH [of "max a seq"] show ?case by simp
qed

lemma fold_max_upper: "x \<in> set ids \<Longrightarrow> x \<le> fold max ids (seq :: int)"
proof (induction ids arbitrary: seq)
  case Nil
  then show ?case by simp
next
  case (Cons a ids)
  show ?case
  proof (cases "x = a")
    case True
    with fold_max_lower [of "max a seq" ids] show ?thesis by simp
  next
    case False
    with Cons show ?thesis by simp
  qed
qed

lemma next_rowid_fresh: "d \<in> set xs \<Longrightarrow> d_id d \<noteq> next_rowid seq (map d_id xs)"
  using fold_max_upper [of "d_id d" "map d_id xs" seq] by (auto simp: next_rowid_def)

subsection \<open>The enum columns\<close>

text \<open>\<open>enum_columns_ok\<close> holds of the empty database and every method keeps it.\<close>

lemma enum_columns_ok_empty: "enum_columns_ok empty_db"
  by (simp add: enum_columns_ok_def empty_db_def)

lemma enum_columns_ok_log_change:
  "enum_columns_ok (log_change s i who f ov nv c now) = enum_columns_ok s"
  by (simp add: enum_columns_ok_def defects_log_change)

lemma enum_columns_ok_update_defects:
  assumes "enum_columns_ok s"
    and "\<And>d. d_severity (f d) = d_severity d" and "\<And>d. d_priority (f d) = d_priority d"
  shows "enum_columns_ok (update_defects s i f)"
  using assms by (auto simp: enum_columns_ok_def update_defects_def list_all_iff)

lemma DefectSeverity_name_value: "\<exists>y. DefectSeverity_name (DefectSeverity_value sev) = Some y"
  by (cases sev) (simp_all add: DefectSeverity_name_def)

lemma DefectPriority_name_value: "\<exists>y. DefectPriority_name (DefectPriority_value pri) = Some y"
  by (cases pri) (simp_all add: DefectPriority_name_def)

lemma enum_columns_ok_create_defect:
  assumes "enum_columns_ok s"
  shows "enum_columns_ok (snd (create_defect s title description severity priority found_by
           module' kwargs now_found now_log))"
  using assms
  by (auto simp: create_defect_def Let_def defects_log_change enum_columns_ok_def
        DefectSeverity_name_value DefectPriority_name_value
        split: option.splits)

lemma enum_columns_ok_run_call:
  assumes "enum_columns_ok s"
  shows "enum_columns_ok (snd (run_call i c s))"
proof (cases c)
  case (UpdateStatus new_status changed_by comment now_date now_log)
  then show ?thesis
    using assms
    by (auto simp: update_status_def Let_def enum_columns_ok_log_change
          intro!: enum_columns_ok_update_defects split: option.splits)
next
  case (AssignDefect assignee assigned_by comment now_log)
  then show ?thesis
    using assms
    by (auto simp: assign_defect_def Let_def enum_columns_ok_log_change
          intro!: enum_columns_ok_update_defects split: option.splits)
next
  case (AddResolution resolution root_cause resolved_by now_log)
  then show ?thesis
    using assms
    by (auto simp: add_resolution_def Let_def enum_columns_ok_log_change
          intro!: enum_columns_ok_update_defects split: option.splits)
qed

subsection \<open>Facts about \<open>get_metrics\<close>\<close>

lemma name_counts_total:
  "list_all (\<lambda>row. name (fst row) \<noteq> None) rows \<Longrightarrow> \<exists>r. name_counts name rows = Some r"
  by (induction rows) auto

lemma group_count_keys: "map fst (group_count ks) = remdups ks"
  by (simp add: group_count_def comp_def)

lemma group_count_member:
  "(k, n) \<in> set (group_count ks) \<longleftrightarrow> k \<in> set ks \<and> n = count_list ks k"
  by (auto simp: group_count_def)

lemma group_count_sum: "sum_list (map snd (group_count ks)) = length ks"
proof -
  have "sum_list (map snd (group_count ks)) = sum_list (map (count_list ks) (remdups ks))"
    by (simp add: group_count_def comp_def)
  also have "\<dots> = sum (count_list ks) (set ks)"
    using sum_list_distinct_conv_sum_set [of "remdups ks" "count_list ks"] by simp
  also have "\<dots> = length ks"
    by (rule sum_count_set) simp_all
  finally show ?thesis .
qed

text \<open>On a database whose severities and priorities are values of enum members,
  \<open>get_metrics\<close> returns, and this is what it returns.\<close>

lemma get_metrics_returns:
  assumes "enum_columns_ok s"
  shows "\<exists>sev pri. get_metrics fl s =
     Inr \<lparr>by_status = group_count (map d_status (defects s)), by_severity = sev,
          by_priority = pri,
          avg_resolution_days =
            (case sql_avg fl (resolution_days fl s) of
               None \<Rightarrow> None
             | Some mean \<Rightarrow> if mean \<noteq> 0 then Some (round_1 fl mean) else None),
          by_module = group_count (concat (map (\<lambda>d. case d_module d of
                                 None \<Rightarrow> [] | Some m \<Rightarrow> [m]) (defects s))),
          reopened_count = length (filter (\<lambda>d. d_status d = ''Reopened'') (defects s))\<rparr>"
proof -
  have "list_all (\<lambda>row. DefectSeverity_name (fst row) \<noteq> None)
          (group_count (map d_severity (defects s)))"
    using assms by (auto simp: enum_columns_ok_def list_all_iff group_count_def)
  then obtain sev where sev:
    "name_counts DefectSeverity_name (group_count (map d_severity (defects s))) = Some sev"
    using name_counts_total by blast
  have "list_all (\<lambda>row. DefectPriority_name (fst row) \<noteq> None)
          (group_count (map d_priority (defects s)))"
    using assms by (auto simp: enum_columns_ok_def list_all_iff group_count_def)
  then obtain pri where pri:
    "name_counts DefectPriority_name (group_count (map d_priority (defects s))) = Some pri"
    using name_counts_total by blast
  show ?thesis
    by (simp add: get_metrics_def Let_def sev pri)
qed

lemma closed_days_filter:
  "concat (map (\<lambda>d. case d_closed_date d of
                      None \<Rightarrow> []
                    | Some closed_date \<Rightarrow>
                        if d_status d = ''Closed''
                        then [julianday_diff fl closed_date (d_found_date d)] else []) xs)
   = map (\<lambda>d. julianday_diff fl (the (d_closed_date d)) (d_found_date d))
       (filter (\<lambda>d. d_status d = ''Closed'' \<and> d_closed_date d \<noteq> None) xs)"
  by (induction xs) (auto split: option.splits)

lemma resolution_days_filter:
  "resolution_days fl s
   = map (\<lambda>d. julianday_diff fl (the (d_closed_date d)) (d_found_date d))
       (filter (\<lambda>d. d_status d = ''Closed'' \<and> d_closed_date d \<noteq> None) (defects s))"
  unfolding resolution_days_def by (rule closed_days_filter)

lemma count_modules:
  "count_list (concat (map (\<lambda>d. case d_module d of None \<Rightarrow> [] | Some m \<Rightarrow> [m]) xs)) k
     = length (filter (\<lambda>d. d_module d = Some k) xs)"
  by (induction xs) (auto split: option.splits)

lemma length_modules:
  "length (concat (map (\<lambda>d. case d_module d of None \<Rightarrow> [] | Some m \<Rightarrow> [m]) xs))
     + length (filter (\<lambda>d. d_module d = None) xs) = length xs"
  by (induction xs) (auto split: option.splits)

text \<open>The metrics of the example databases, with \<open>exact_arithmetic\<close>.\<close>

lemmas metrics_defs = get_metrics_def group_count_def resolution_days_def sql_avg_def
  exact_arithmetic_def nearest_tenth_def DefectSeverity_name_def DefectPriority_name_def
  enum_columns_ok_def

lemma closed_on_day_five_metrics:
  "get_metrics exact_arithmetic closed_on_day_five =
     Inr \<lparr>by_status = [(''Closed'', 1)], by_severity = [(''MAJOR'', 1)],
          by_priority = [(''HIGH'', 1)], avg_resolution_days = Some 5, by_module = [],
          reopened_count = 0\<rparr>"
  by (simp add: closed_on_day_five_def run_defs scenario_defs metrics_defs)

lemma two_defects_metrics:
  "get_metrics fl two_defects =
     Inr \<lparr>by_status = [(''New'', 1), (''Open'', 1)],
          by_severity = [(''MAJOR'', 1), (''MINOR'', 1)],
          by_priority = [(''HIGH'', 1), (''LOW'', 1)], avg_resolution_days = None,
          by_module = [(''ui'', 1)], reopened_count = 0\<rparr>"
  by (simp add: run_defs scenario_defs metrics_defs)

section \<open>The claims\<close>

subsection \<open>C1: the dates \<open>update_status\<close> sets\<close>

text \<open>
  Claim C1 says that \<open>update_status\<close> sets \<open>fixed_date\<close>, \<open>verified_date\<close> or
  \<open>closed_date\<close> only when the new status is Fixed, Verified or Closed \<^emph>\<open>and\<close> the date
  is not set yet, so that a second transition to Fixed keeps the first \<open>fixed_date\<close>.
  The method has no test of the date it writes: the \<open>UPDATE\<close> carries the date whenever
  the new status is one of the three. What holds is this: on a defect that exists,
  \<open>update_status\<close> returns \<open>True\<close>, stores the new status, sets the date that belongs
  to a new status Fixed, Verified or Closed to the clock reading of the call, whatever
  the column held, and leaves each of the three dates as it was otherwise.
\<close>

theorem update_status_sets_dates:
  assumes "fetch_defect s defect_id = Some d"
  shows "\<exists>s' d'. update_status s defect_id new_status changed_by comment now_date now_log = (True, s')
           \<and> fetch_defect s' defect_id = Some d'
           \<and> d_status d' = DefectStatus_value new_status
           \<and> d_fixed_date d' = (if new_status = FIXED then Some now_date else d_fixed_date d)
           \<and> d_verified_date d' = (if new_status = VERIFIED then Some now_date else d_verified_date d)
           \<and> d_closed_date d' = (if new_status = CLOSED then Some now_date else d_closed_date d)"
  using assms by (simp add: update_status_def Let_def fetch_update_defects fetch_log_change)

text \<open>The theorem at the defect fixed at time 2, which is reopened at time 3: the status
  changes and \<open>fixed_date\<close> stays.\<close>

theorem update_status_sets_dates_witness:
  "fetch_defect fixed_once 1 = Some (crash_report\<lparr>d_status := ''Fixed'', d_fixed_date := Some 2\<rparr>)
   \<and> (\<exists>s' d'. update_status fixed_once 1 REOPENED ''amy'' None 3 3 = (True, s')
         \<and> fetch_defect s' 1 = Some d' \<and> d_status d' = ''Reopened''
         \<and> d_fixed_date d' = Some 2 \<and> d_verified_date d' = None \<and> d_closed_date d' = None)"
proof -
  have h: "fetch_defect fixed_once 1 = Some (crash_report\<lparr>d_status := ''Fixed'', d_fixed_date := Some 2\<rparr>)"
    by (simp add: fixed_once_def run_defs scenario_defs)
  show ?thesis
    using h update_status_sets_dates [OF h, of REOPENED "''amy''" None 3 3]
    by (simp add: crash_report_def)
qed

text \<open>Against the claim as stated: Fixed at time 2, Reopened, Fixed again at time 4. The
  first transition records \<open>fixed_date = 2\<close>, and the second replaces it by 4.\<close>

theorem fixed_date_overwritten:
  "map_option d_fixed_date (fetch_defect fixed_once 1) = Some (Some 2) \<and>
   map_option d_fixed_date (fetch_defect fixed_twice 1) = Some (Some 4)"
  by (simp add: fixed_twice_def fixed_once_def run_defs scenario_defs)

subsection \<open>C2: calls on an id that is not in the table\<close>

text \<open>\<open>update_status\<close> and \<open>assign_defect\<close> select the row first and return \<open>False\<close>
  when there is none, before any statement that writes.\<close>

lemma update_status_missing:
  "fetch_defect s defect_id = None \<Longrightarrow>
   update_status s defect_id new_status changed_by comment now_date now_log = (False, s)"
  by (simp add: update_status_def)

lemma assign_defect_missing:
  "fetch_defect s defect_id = None \<Longrightarrow>
   assign_defect s defect_id assignee assigned_by comment now_log = (False, s)"
  by (simp add: assign_defect_def)

text \<open>
  Claim C2 says that on an id that is not in the table each of \<open>update_status\<close>,
  \<open>assign_defect\<close> and \<open>add_resolution\<close> reports the failure and writes nothing.
  \<open>add_resolution\<close> does not select the row: its \<open>UPDATE\<close> changes no row, and with
  \<open>resolved_by\<close> given it goes on to insert a history row for the id and returns
  \<open>True\<close>. In the empty database, for id 999999:
\<close>

theorem add_resolution_missing_id:
  "fetch_defect empty_db 999999 = None \<and>
   add_resolution empty_db 999999 ''patched'' None (Some ''bob'') 5 =
     (True, empty_db\<lparr>defect_history :=
        [\<lparr>h_id = 1, h_defect_id = 999999, h_changed_by = ''bob'', h_change_date = 5,
          h_field_changed = Some ''resolution'', h_old_value = None,
          h_new_value = Some ''patched'', h_comment = Some ''Root cause: None''\<rparr>],
        defect_history_seq := 1\<rparr>)"
  by (simp add: run_defs scenario_defs)

subsection \<open>C3: the average resolution time\<close>

text \<open>
  Claim C3 says that \<open>avg_resolution_days\<close> is the mean of \<open>closed_date - found_date\<close>
  in days over the defects that are Closed and have a \<open>closed_date\<close>, undefined when
  there is none, 5.0 for one defect found on day 0 and closed on day 5, and 0.0 rather
  than undefined for a mean of 0 days. \<open>get_metrics\<close> returns
  \<open>round(result[0], 1) if result[0] else None\<close>, where \<open>result[0]\<close> is the \<open>AVG\<close>
  SQLite computes in doubles: the average rounded to one decimal place, and \<open>None\<close> for
  every average the test \<open>if result[0]\<close> takes for false. What holds of the rounding,
  on a database on which \<open>get_metrics\<close> returns and whatever the floating-point
  operations compute: with no defect that is Closed and has a \<open>closed_date\<close> the value
  is \<open>None\<close>; otherwise, when the \<open>AVG\<close> of the differences
  \<open>julianday(closed_date) - julianday(found_date)\<close> of exactly those defects is not
  zero, the value is \<open>round(x, 1)\<close> of that \<open>AVG\<close>. (The statement leaves the average
  zero open; see \<open>avg_resolution_days_of_average_zero\<close> below.)
\<close>

theorem avg_resolution_days_rounded:
  assumes "enum_columns_ok s"
  shows "\<exists>m. get_metrics fl s = Inr m \<and>
     (let days = map (\<lambda>d. julianday_diff fl (the (d_closed_date d)) (d_found_date d))
                   (filter (\<lambda>d. d_status d = ''Closed'' \<and> d_closed_date d \<noteq> None) (defects s));
          mean = avg_double fl days
      in (days = [] \<longrightarrow> avg_resolution_days m = None) \<and>
         (days \<noteq> [] \<and> mean \<noteq> 0 \<longrightarrow> avg_resolution_days m = Some (round_1 fl mean)))"
proof -
  from get_metrics_returns [OF assms, of fl] obtain m where
    m: "get_metrics fl s = Inr m" and
    avg: "avg_resolution_days m =
            (case sql_avg fl (resolution_days fl s) of
               None \<Rightarrow> None
             | Some mean \<Rightarrow> if mean \<noteq> 0 then Some (round_1 fl mean) else None)"
    by force
  show ?thesis
    using m avg unfolding resolution_days_filter [symmetric] Let_def
    by (auto simp: sql_avg_def)
qed

text \<open>The theorem at the defect found on day 0 and closed on day 5, with operations that
  compute the difference 5, its average 5 and round 5 to 5: the value is 5.\<close>

theorem avg_resolution_days_rounded_witness:
  "enum_columns_ok closed_on_day_five
   \<and> map (\<lambda>d. (d_status d, d_found_date d, d_closed_date d)) (defects closed_on_day_five)
       = [(''Closed'', 0, Some 5)]
   \<and> (\<exists>m. get_metrics exact_arithmetic closed_on_day_five = Inr m
         \<and> avg_resolution_days m = Some 5)"
proof -
  have ok: "enum_columns_ok closed_on_day_five"
    by (simp add: closed_on_day_five_def run_defs scenario_defs metrics_defs)
  have rows: "map (\<lambda>d. (d_status d, d_found_date d, d_closed_date d)) (defects closed_on_day_five)
       = [(''Closed'', 0, Some 5)]"
    by (simp add: closed_on_day_five_def run_defs scenario_defs)
  from avg_resolution_days_rounded [OF ok, of exact_arithmetic] obtain m where
    "get_metrics exact_arithmetic closed_on_day_five = Inr m" by blast
  with ok rows show ?thesis
    by (auto simp: closed_on_day_five_metrics)
qed

text \<open>Against the claim as stated: one Closed defect, found on day 0 and closed a
  twenty-fifth of a day (57 minutes 36 seconds) later. The average is taken of the one
  difference. No floating-point operations that compute this average to within a
  hundredth of \<open>1/25\<close> and round it to within a hundredth of 0, as those of SQLite and
  Python do, make the value returned the average.\<close>

theorem avg_resolution_days_not_the_mean:
  "map (\<lambda>d. (d_status d, d_found_date d, d_closed_date d)) (defects closed_within_the_hour)
     = [(''Closed'', 0, Some (1 / 25))]
   \<and> \<not> (\<exists>fl m. \<bar>avg_double fl [julianday_diff fl (1 / 25) 0] - 1 / 25\<bar> \<le> 1 / 100
            \<and> \<bar>round_1 fl (avg_double fl [julianday_diff fl (1 / 25) 0])\<bar> \<le> 1 / 100
            \<and> get_metrics fl closed_within_the_hour = Inr m
            \<and> avg_resolution_days m = Some (avg_double fl [julianday_diff fl (1 / 25) 0]))"
proof
  show "map (\<lambda>d. (d_status d, d_found_date d, d_closed_date d)) (defects closed_within_the_hour)
     = [(''Closed'', 0, Some (1 / 25))]"
    by (simp add: closed_within_the_hour_def run_defs scenario_defs)
  show "\<not> (\<exists>fl m. \<bar>avg_double fl [julianday_diff fl (1 / 25) 0] - 1 / 25\<bar> \<le> 1 / 100
            \<and> \<bar>round_1 fl (avg_double fl [julianday_diff fl (1 / 25) 0])\<bar> \<le> 1 / 100
            \<and> get_metrics fl closed_within_the_hour = Inr m
            \<and> avg_resolution_days m = Some (avg_double fl [julianday_diff fl (1 / 25) 0]))"
  proof
    assume "\<exists>fl m. \<bar>avg_double fl [julianday_diff fl (1 / 25) 0] - 1 / 25\<bar> \<le> 1 / 100
            \<and> \<bar>round_1 fl (avg_double fl [julianday_diff fl (1 / 25) 0])\<bar> \<le> 1 / 100
            \<and> get_metrics fl closed_within_the_hour = Inr m
            \<and> avg_resolution_days m = Some (avg_double fl [julianday_diff fl (1 / 25) 0])"
    then obtain fl m where
      near: "\<bar>avg_double fl [julianday_diff fl (1 / 25) 0] - 1 / 25\<bar> \<le> 1 / 100" and
      rounded: "\<bar>round_1 fl (avg_double fl [julianday_diff fl (1 / 25) 0])\<bar> \<le> 1 / 100" and
      m: "get_metrics fl closed_within_the_hour = Inr m" and
      same: "avg_resolution_days m = Some (avg_double fl [julianday_diff fl (1 / 25) 0])"
      by blast
    define a where "a = avg_double fl [julianday_diff fl (1 / 25) 0]"
    have "get_metrics fl closed_within_the_hour =
            Inr \<lparr>by_status = [(''Closed'', 1)], by_severity = [(''MAJOR'', 1)],
                 by_priority = [(''HIGH'', 1)],
                 avg_resolution_days = (if a \<noteq> 0 then Some (round_1 fl a) else None),
                 by_module = [], reopened_count = 0\<rparr>"
      unfolding a_def
      by (simp add: closed_within_the_hour_def run_defs scenario_defs get_metrics_def
            group_count_def resolution_days_def sql_avg_def DefectSeverity_name_def
            DefectPriority_name_def)
    with m same have "(if a \<noteq> 0 then Some (round_1 fl a) else None) = Some a"
      unfolding a_def by auto
    then have "round_1 fl a = a"
      by (simp split: if_splits)
    with near rounded show False
      unfolding a_def by linarith
  qed
qed

text \<open>The average zero: \<open>None\<close> is returned whenever the \<open>AVG\<close> is a zero, which
  \<open>if result[0]\<close> takes for false. One Closed defect whose \<open>closed_date\<close> is its
  \<open>found_date\<close> is enough, with operations for which the difference of an instant and
  itself is 0 and the average of one 0 is 0.\<close>

lemma avg_resolution_days_of_average_zero:
  assumes "julianday_diff fl 0 0 = 0" and "avg_double fl [0] = 0"
  shows "map (\<lambda>d. (d_status d, d_found_date d, d_closed_date d)) (defects closed_at_once)
     = [(''Closed'', 0, Some 0)]
   \<and> get_metrics fl closed_at_once =
       Inr \<lparr>by_status = [(''Closed'', 1)], by_severity = [(''MAJOR'', 1)],
            by_priority = [(''HIGH'', 1)], avg_resolution_days = None, by_module = [],
            reopened_count = 0\<rparr>"
  using assms
  by (simp add: closed_at_once_def run_defs scenario_defs get_metrics_def
        group_count_def resolution_days_def sql_avg_def DefectSeverity_name_def
        DefectPriority_name_def)

subsection \<open>C4: the history of a defect after a sequence of calls\<close>

text \<open>On a defect that exists each of the three methods returns \<open>True\<close> and leaves the
  defect in the table; the defect's history gains the row of \<open>_log_change\<close>, with the
  clock reading of that call, when the call logs, and nothing otherwise.\<close>

lemma run_call_existing:
  assumes "fetch_defect s i = Some d"
  shows "\<exists>s' d'. run_call i c s = (True, s') \<and> fetch_defect s' i = Some d'
           \<and> map h_change_date (history_of s' i)
               = map h_change_date (history_of s i) @ (if logs c then [log_time c] else [])"
proof (cases c)
  case (UpdateStatus new_status changed_by comment now_date now_log)
  then show ?thesis
    using assms
    by (simp add: update_status_def Let_def fetch_update_defects fetch_log_change
          history_of_log_change history_of_update_defects)
next
  case (AssignDefect assignee assigned_by comment now_log)
  then show ?thesis
    using assms
    by (simp add: assign_defect_def Let_def fetch_update_defects fetch_log_change
          history_of_log_change history_of_update_defects)
next
  case (AddResolution resolution root_cause resolved_by now_log)
  then show ?thesis
    using assms
    by (auto simp: add_resolution_def Let_def fetch_update_defects fetch_log_change
          history_of_log_change history_of_update_defects truthy_def split: option.splits)
qed

lemma run_calls_existing:
  assumes "fetch_defect s i = Some d"
  shows "fst (run_calls i cs s) \<and>
         map h_change_date (history_of (snd (run_calls i cs s)) i)
           = map h_change_date (history_of s i) @ map log_time (filter logs cs)"
  using assms
proof (induction cs arbitrary: s d)
  case Nil
  then show ?case by simp
next
  case (Cons c cs)
  from run_call_existing [OF Cons.prems, of c] obtain s1 d1 where
    step: "run_call i c s = (True, s1)" and d1: "fetch_defect s1 i = Some d1" and
    h1: "map h_change_date (history_of s1 i)
           = map h_change_date (history_of s i) @ (if logs c then [log_time c] else [])"
    by blast
  from Cons.IH [OF d1] show ?case
    by (simp add: step h1 split: prod.splits)
qed

text \<open>
  Claim C4 says that after \<open>N\<close> successful calls of \<open>update_status\<close>, \<open>assign_defect\<close>
  and \<open>add_resolution\<close> on a defect, its history has \<open>N + 1\<close> rows with non-decreasing
  \<open>change_date\<close>. Two things stand against it. \<open>add_resolution\<close> logs only
  \<open>if resolved_by:\<close>; without it the call succeeds and writes no history row. And a
  \<open>change_date\<close> is the reading of \<open>datetime.now()\<close>, the local wall clock, at the
  insert; nothing compares it with the row before. What holds, for a defect whose history
  is the one row of its creation and for every sequence of calls: every call returns
  \<open>True\<close>; the history ends with one row more for each call that logs (every
  \<open>update_status\<close>, every \<open>assign_defect\<close>, and every \<open>add_resolution\<close> with a
  \<open>resolved_by\<close> that is not empty); the \<open>change_date\<close>s are, in the order of the log,
  the reading of the creation and then the readings of the calls that log; so they are
  non-decreasing exactly when these readings are.
\<close>

theorem history_counts_logged_calls:
  assumes "fetch_defect s defect_id \<noteq> None"
    and "length (history_of s defect_id) = 1"
  shows "fst (run_calls defect_id cs s)
     \<and> length (history_of (snd (run_calls defect_id cs s)) defect_id) = 1 + length (filter logs cs)
     \<and> map h_change_date (history_of (snd (run_calls defect_id cs s)) defect_id)
         = map h_change_date (history_of s defect_id) @ map log_time (filter logs cs)
     \<and> (sorted (map h_change_date (history_of (snd (run_calls defect_id cs s)) defect_id))
          \<longleftrightarrow> sorted (map h_change_date (history_of s defect_id) @ map log_time (filter logs cs)))"
proof -
  from assms(1) obtain d where d: "fetch_defect s defect_id = Some d" by blast
  note r = run_calls_existing [OF d, of cs]
  from r have "length (map h_change_date (history_of (snd (run_calls defect_id cs s)) defect_id))
          = length (map h_change_date (history_of s defect_id) @ map log_time (filter logs cs))"
    by (simp only:)
  then have "length (history_of (snd (run_calls defect_id cs s)) defect_id)
          = 1 + length (filter logs cs)"
    using assms(2) by simp
  then show ?thesis
    using r by simp
qed

text \<open>The theorem at the new defect and three calls, of which the second, an
  \<open>add_resolution\<close> without \<open>resolved_by\<close>, does not log: the history ends with
  \<open>1 + 2\<close> rows, dated 0, 1 and 3, which is non-decreasing.\<close>

theorem history_counts_logged_calls_witness:
  "fetch_defect one_defect 1 \<noteq> None
   \<and> length (history_of one_defect 1) = 1
   \<and> fst (run_calls 1 [AssignDefect ''bob'' ''amy'' None 1, AddResolution ''patched'' None None 2,
                        UpdateStatus FIXED ''bob'' None 3 3] one_defect)
   \<and> length (history_of (snd (run_calls 1 [AssignDefect ''bob'' ''amy'' None 1,
                AddResolution ''patched'' None None 2,
                UpdateStatus FIXED ''bob'' None 3 3] one_defect)) 1) = 3
   \<and> map h_change_date (history_of (snd (run_calls 1 [AssignDefect ''bob'' ''amy'' None 1,
                AddResolution ''patched'' None None 2,
                UpdateStatus FIXED ''bob'' None 3 3] one_defect)) 1) = [0, 1, 3]
   \<and> sorted (map h_change_date (history_of (snd (run_calls 1 [AssignDefect ''bob'' ''amy'' None 1,
                AddResolution ''patched'' None None 2,
                UpdateStatus FIXED ''bob'' None 3 3] one_defect)) 1))"
proof -
  have h1: "fetch_defect one_defect 1 \<noteq> None"
    by (simp add: run_defs scenario_defs)
  have h2: "length (history_of one_defect 1) = 1"
    by (simp add: run_defs scenario_defs)
  have h3: "map h_change_date (history_of one_defect 1) = [0]"
    by (simp add: run_defs scenario_defs)
  from history_counts_logged_calls [OF h1 h2, of "[AssignDefect ''bob'' ''amy'' None 1,
      AddResolution ''patched'' None None 2, UpdateStatus FIXED ''bob'' None 3 3]"] h1 h2
  show ?thesis
    by (simp add: truthy_def h3)
qed

text \<open>Against the claim as stated, twice. One call of \<open>add_resolution\<close> without
  \<open>resolved_by\<close> on the new defect returns \<open>True\<close> and stores the resolution, and the
  history is still the one row of the creation: 1 row after 1 successful call, not 2.
  And two calls that log, the first at a reading of 5 and the second, after the clock
  was set back, at a reading of 3: both succeed, the history has \<open>2 + 1\<close> rows, and
  their \<open>change_date\<close>s 0, 5, 3 decrease at the end.\<close>

theorem silent_resolution_leaves_history:
  "fst (run_calls 1 [AddResolution ''patched'' None None 1] one_defect)
   \<and> map_option d_resolution
        (fetch_defect (snd (run_calls 1 [AddResolution ''patched'' None None 1] one_defect)) 1)
       = Some (Some ''patched'')
   \<and> history_of (snd (run_calls 1 [AddResolution ''patched'' None None 1] one_defect)) 1
       = [crash_created]
   \<and> fst (run_calls 1 [AssignDefect ''bob'' ''amy'' None 5, UpdateStatus FIXED ''bob'' None 3 3]
            one_defect)
   \<and> map h_change_date
        (history_of (snd (run_calls 1 [AssignDefect ''bob'' ''amy'' None 5,
           UpdateStatus FIXED ''bob'' None 3 3] one_defect)) 1) = [0, 5, 3]
   \<and> \<not> sorted [0, 5, 3 :: timestamp]"
  by (simp add: run_defs scenario_defs)

subsection \<open>C5: \<open>create_defect\<close> without a required field\<close>

text \<open>
  Claim C5 says that \<open>create_defect\<close> fails before any write when \<open>title\<close>,
  \<open>found_by\<close>, \<open>severity\<close> or \<open>priority\<close> is missing. A missing \<open>severity\<close> or
  \<open>priority\<close> raises \<open>AttributeError\<close> when the row's values are computed, a missing
  \<open>title\<close> or \<open>found_by\<close> makes the \<open>INSERT\<close> raise \<open>IntegrityError\<close>; these are
  the validation errors of the call. In each case the call ends in the error and the
  database is the one it started from: no defect row, no history row.
\<close>

theorem create_defect_missing_field:
  assumes "title = None \<or> found_by = None \<or> severity = None \<or> priority = None"
  shows "\<exists>e. create_defect s title description severity priority found_by module' kwargs
            now_found now_log = (Inl e, s)"
  using assms by (auto simp: create_defect_def split: option.splits)

theorem create_defect_missing_field_witness:
  "\<exists>e. create_defect one_defect None (Some ''no title'') (Some MINOR) (Some LOW) (Some ''amy'')
     None Map.empty 1 1 = (Inl e, one_defect)"
  using create_defect_missing_field [of None "Some ''amy''" "Some MINOR" "Some LOW" one_defect
      "Some ''no title''" None Map.empty 1 1]
  by simp

subsection \<open>C6: \<open>assign_defect\<close>\<close>

text \<open>
  Claim C6: on a defect that exists, \<open>assign_defect\<close> stores the assignee and, exactly
  when the status is New, the status Assigned with it; nothing else in the row changes
  and no other defect changes; and the history gains exactly one row, for the column
  \<open>assigned_to\<close>, also when the status changed too.
\<close>

theorem assign_defect_effect:
  assumes "fetch_defect s defect_id = Some d"
  shows "\<exists>s' h. assign_defect s defect_id assignee assigned_by comment now_log = (True, s')
           \<and> fetch_defect s' defect_id =
               Some (d\<lparr>d_assigned_to := Some assignee,
                       d_status := (if d_status d = ''New'' then ''Assigned'' else d_status d)\<rparr>)
           \<and> (\<forall>j. j \<noteq> defect_id \<longrightarrow> fetch_defect s' j = fetch_defect s j)
           \<and> defect_history s' = defect_history s @ [h]
           \<and> h_defect_id h = defect_id \<and> h_changed_by h = assigned_by
           \<and> h_field_changed h = Some ''assigned_to''
           \<and> h_old_value h = d_assigned_to d \<and> h_new_value h = Some assignee"
  using assms
  by (simp add: assign_defect_def Let_def fetch_update_defects fetch_log_change)
     (simp add: log_change_def Let_def history_update_defects)

text \<open>The theorem at the new defect, and at the open one of \<open>two_defects\<close>, whose status
  stays.\<close>

theorem assign_defect_effect_witness:
  "fetch_defect two_defects 1 = Some crash_report
   \<and> (\<exists>s'. assign_defect two_defects 1 ''bob'' ''amy'' None 2 = (True, s')
         \<and> fetch_defect s' 1 = Some (crash_report\<lparr>d_assigned_to := Some ''bob'', d_status := ''Assigned''\<rparr>)
         \<and> fetch_defect s' 2 = Some typo_report
         \<and> length (defect_history s') = length (defect_history two_defects) + 1)"
proof -
  have h: "fetch_defect two_defects 1 = Some crash_report"
    by (simp add: run_defs scenario_defs)
  have other: "fetch_defect two_defects 2 = Some typo_report"
    by (simp add: run_defs scenario_defs)
  have new: "d_status crash_report = ''New''"
    by (simp add: crash_report_def)
  from assign_defect_effect [OF h, of "''bob''" "''amy''" None 2] obtain s' e where
    "assign_defect two_defects 1 ''bob'' ''amy'' None 2 = (True, s')"
    "fetch_defect s' 1 = Some (crash_report\<lparr>d_assigned_to := Some ''bob'', d_status := ''Assigned''\<rparr>)"
    "\<forall>j. j \<noteq> 1 \<longrightarrow> fetch_defect s' j = fetch_defect two_defects j"
    "defect_history s' = defect_history two_defects @ [e]"
    unfolding new by auto
  with h other show ?thesis by simp
qed

subsection \<open>C7: \<open>search_defects\<close>\<close>

text \<open>
  Claim C7 says that \<open>search_defects\<close> returns exactly the defects that agree with
  every criterion given, that an absent criterion constrains nothing, and that with no
  criterion at all every defect is returned. The method compares with SQL's
  \<open>column = ?\<close>, which holds of no row when the value bound is NULL: a criterion given
  as \<open>None\<close> selects nothing, also not the defects whose column is NULL. What holds,
  for every database and all criteria: the result is the table's rows in their order,
  filtered to those whose column is not NULL and equal to the value of every criterion
  given; and with no criterion it is the whole table.
\<close>

theorem search_defects_matches:
  "search_defects s c =
     filter (\<lambda>d. (\<forall>v. c_status c = Some v \<longrightarrow> v = Some (d_status d))
                \<and> (\<forall>v. c_severity c = Some v \<longrightarrow> v = Some (d_severity d))
                \<and> (\<forall>v. c_priority c = Some v \<longrightarrow> v = Some (d_priority d))
                \<and> (\<forall>v. c_assigned_to c = Some v \<longrightarrow> v \<noteq> None \<and> d_assigned_to d = v)
                \<and> (\<forall>v. c_module c = Some v \<longrightarrow> v \<noteq> None \<and> d_module d = v)) (defects s)
   \<and> search_defects s no_criteria = defects s"
proof
  show "search_defects s c =
     filter (\<lambda>d. (\<forall>v. c_status c = Some v \<longrightarrow> v = Some (d_status d))
                \<and> (\<forall>v. c_severity c = Some v \<longrightarrow> v = Some (d_severity d))
                \<and> (\<forall>v. c_priority c = Some v \<longrightarrow> v = Some (d_priority d))
                \<and> (\<forall>v. c_assigned_to c = Some v \<longrightarrow> v \<noteq> None \<and> d_assigned_to d = v)
                \<and> (\<forall>v. c_module c = Some v \<longrightarrow> v \<noteq> None \<and> d_module d = v)) (defects s)"
    unfolding search_defects_def Let_def
    by (intro filter_cong refl) (auto simp: sql_eq_def split: option.splits)
  show "search_defects s no_criteria = defects s"
    by (simp add: search_defects_def no_criteria_def)
qed

text \<open>The theorem at \<open>two_defects\<close>, searched for the defects of module \<open>ui\<close> that are
  assigned to \<open>bob\<close>: the second defect alone.\<close>

theorem search_defects_matches_witness:
  "search_defects two_defects
     (no_criteria\<lparr>c_assigned_to := Some (Some ''bob''), c_module := Some (Some ''ui'')\<rparr>)
     = [typo_report]
   \<and> search_defects two_defects no_criteria = [crash_report, typo_report]"
  using search_defects_matches
    [of two_defects
        "no_criteria\<lparr>c_assigned_to := Some (Some ''bob''), c_module := Some (Some ''ui'')\<rparr>"]
  by (simp add: no_criteria_def scenario_defs)

text \<open>Against the claim as stated: the one defect of \<open>one_defect\<close> has no module, so it
  agrees with the criterion \<open>module = None\<close>, and the search with that criterion returns
  nothing.\<close>

theorem search_defects_null_module:
  "defects one_defect = [crash_report] \<and> d_module crash_report = None
   \<and> search_defects one_defect (no_criteria\<lparr>c_module := Some None\<rparr>) = []"
  by (simp add: search_defects_def sql_eq_def no_criteria_def scenario_defs)

text \<open>So it is for every criterion and every table.\<close>

lemma search_defects_null_criterion:
  assumes "c_status c = Some None \<or> c_severity c = Some None \<or> c_priority c = Some None
           \<or> c_assigned_to c = Some None \<or> c_module c = Some None"
  shows "search_defects s c = []"
  unfolding search_defects_def Let_def filter_empty_conv
  using assms by (auto simp: sql_eq_def split: option.splits)

subsection \<open>C8: the defect and the history \<open>create_defect\<close> leaves\<close>

text \<open>With the four required fields given, \<open>create_defect\<close> returns a fresh id, the row
  of that id has the status New and the \<open>found_date\<close> of the call, and the history of
  that id gains exactly one row, the creation marker.\<close>

lemma create_defect_new:
  "\<exists>i s' d' h. create_defect s (Some title) description (Some severity) (Some priority)
            (Some found_by) module' kwargs now_found now_log = (Inr i, s')
     \<and> fetch_defect s i = None
     \<and> fetch_defect s' i = Some d' \<and> d_status d' = ''New'' \<and> d_found_date d' = now_found
     \<and> history_of s' i = history_of s i @ [h] \<and> h_comment h = Some ''Defect created''"
proof -
  define i where "i = next_rowid (defects_seq s) (map d_id (defects s))"
  have "find (\<lambda>d. d_id d = i) (defects s) = None"
    using next_rowid_fresh [of _ "defects s" "defects_seq s"]
    by (auto simp: find_None_iff i_def)
  then show ?thesis
    unfolding i_def
    by (simp add: create_defect_def Let_def fetch_defect_def log_change_def history_of_def
          find_append_None)
qed

text \<open>
  Claim C8 says that the defect \<open>create_defect\<close> returns has the status New and a
  \<open>found_date\<close>, and that right after the call the history of the new id is exactly one
  row. The history of the new id is one row longer than before the call
  (\<open>create_defect_new\<close>), and it need not have been empty: \<open>add_resolution\<close> with
  \<open>resolved_by\<close> writes a history row for an id that is not in the table (see C2), and
  \<open>create_defect\<close> may give out that id later. In \<open>orphan_history\<close> the id 1 has such a
  row, and the defect created next gets the id 1 and a history of two rows.
\<close>

theorem create_defect_after_orphan:
  "fst (create_defect orphan_history (Some ''crash on save'') None (Some MAJOR) (Some HIGH)
          (Some ''amy'') None Map.empty 1 1) = Inr 1
   \<and> map h_comment (history_of (snd (create_defect orphan_history (Some ''crash on save'') None
          (Some MAJOR) (Some HIGH) (Some ''amy'') None Map.empty 1 1)) 1)
       = [Some ''Root cause: None'', Some ''Defect created'']"
  by (simp add: orphan_history_def run_defs scenario_defs)

subsection \<open>C9: \<open>by_module\<close> leaves out the defects without a module\<close>

text \<open>
  Claim C9: the \<open>by_module\<close> of \<open>get_metrics\<close> has one bucket for each module some
  defect carries, counting the defects with that module; a defect without a module is
  in no bucket, so the counts add up to the number of defects less those without a
  module, while the counts of \<open>by_status\<close> add up to the number of all defects.
\<close>

theorem by_module_skips_null:
  assumes "enum_columns_ok s"
  shows "\<exists>m. get_metrics fl s = Inr m
     \<and> distinct (map fst (by_module m))
     \<and> (\<forall>k n. (k, n) \<in> set (by_module m) \<longleftrightarrow>
                0 < n \<and> n = length (filter (\<lambda>d. d_module d = Some k) (defects s)))
     \<and> sum_list (map snd (by_module m)) + length (filter (\<lambda>d. d_module d = None) (defects s))
         = length (defects s)
     \<and> sum_list (map snd (by_status m)) = length (defects s)"
proof -
  define mods where
    "mods = concat (map (\<lambda>d. case d_module d of None \<Rightarrow> [] | Some m \<Rightarrow> [m]) (defects s))"
  from get_metrics_returns [OF assms, of fl] obtain m where
    m: "get_metrics fl s = Inr m" and
    bm: "by_module m = group_count mods" and
    bs: "by_status m = group_count (map d_status (defects s))"
    unfolding mods_def by force
  have 1: "distinct (map fst (by_module m))"
    by (simp add: bm group_count_keys)
  have 2: "(k, n) \<in> set (by_module m) \<longleftrightarrow>
                0 < n \<and> n = length (filter (\<lambda>d. d_module d = Some k) (defects s))" for k n
  proof -
    have "k \<in> set mods \<longleftrightarrow> 0 < count_list mods k"
      using count_list_0_iff [of mods k] by auto
    moreover have "count_list mods k = length (filter (\<lambda>d. d_module d = Some k) (defects s))"
      unfolding mods_def by (rule count_modules)
    ultimately show ?thesis
      unfolding bm group_count_member by auto
  qed
  have 3: "sum_list (map snd (by_module m)) + length (filter (\<lambda>d. d_module d = None) (defects s))
         = length (defects s)"
    by (simp add: bm group_count_sum mods_def length_modules)
  have 4: "sum_list (map snd (by_status m)) = length (defects s)"
    by (simp add: bs group_count_sum)
  from m 1 2 3 4 show ?thesis by blast
qed

text \<open>The theorem at \<open>two_defects\<close>, one defect without a module and one in \<open>ui\<close>: the
  one bucket of \<open>by_module\<close> counts 1 of the 2 defects, and \<open>by_status\<close> counts both.\<close>

theorem by_module_skips_null_witness:
  "enum_columns_ok two_defects
   \<and> map d_module (defects two_defects) = [None, Some ''ui'']
   \<and> (\<exists>m. get_metrics exact_arithmetic two_defects = Inr m \<and> by_module m = [(''ui'', 1)]
         \<and> sum_list (map snd (by_module m)) < length (defects two_defects)
         \<and> sum_list (map snd (by_status m)) = length (defects two_defects))"
proof -
  have ok: "enum_columns_ok two_defects"
    by (simp add: scenario_defs metrics_defs)
  have rows: "map d_module (defects two_defects) = [None, Some ''ui'']"
    by (simp add: scenario_defs)
  from by_module_skips_null [OF ok, of exact_arithmetic] obtain m where
    "get_metrics exact_arithmetic two_defects = Inr m" by blast
  moreover have "length (defects two_defects) = 2"
    by (simp add: scenario_defs)
  ultimately show ?thesis
    using ok rows by (auto simp: two_defects_metrics)
qed

subsection \<open>C10: \<open>add_resolution\<close> overwrites the resolution and the root cause\<close>

text \<open>
  Claim C10: every call of \<open>add_resolution\<close> on a defect that exists stores the
  resolution and the root cause it is given, the root cause also when it is left out
  (\<open>None\<close>), which erases one recorded before; every other column of the row and every
  other defect stays as it was.
\<close>

theorem add_resolution_overwrites:
  assumes "fetch_defect s defect_id = Some d"
  shows "\<exists>s'. add_resolution s defect_id resolution root_cause resolved_by now_log = (True, s')
           \<and> fetch_defect s' defect_id =
               Some (d\<lparr>d_resolution := Some resolution, d_root_cause := root_cause\<rparr>)
           \<and> (\<forall>j. j \<noteq> defect_id \<longrightarrow> fetch_defect s' j = fetch_defect s j)"
  using assms
  by (auto simp: add_resolution_def Let_def fetch_update_defects fetch_log_change
           split: option.splits)

text \<open>The theorem at the defect that has the root cause \<open>race condition\<close> on record: a
  second call without a root cause leaves none.\<close>

theorem add_resolution_overwrites_witness:
  "map_option d_root_cause (fetch_defect resolved_with_cause 1) = Some (Some ''race condition'')
   \<and> (\<exists>s'. add_resolution resolved_with_cause 1 ''retested'' None None 2 = (True, s')
         \<and> map_option d_root_cause (fetch_defect s' 1) = Some None
         \<and> map_option d_resolution (fetch_defect s' 1) = Some (Some ''retested'')
         \<and> map_option d_title (fetch_defect s' 1) = Some ''crash on save'')"
proof -
  have h: "fetch_defect resolved_with_cause 1 =
             Some (crash_report\<lparr>d_root_cause := Some ''race condition'', d_resolution := Some ''patched''\<rparr>)"
    by (simp add: resolved_with_cause_def run_defs scenario_defs)
  from add_resolution_overwrites [OF h, of "''retested''" None None 2] obtain s' where
    "add_resolution resolved_with_cause 1 ''retested'' None None 2 = (True, s')"
    "fetch_defect s' 1 =
       Some (crash_report\<lparr>d_root_cause := Some ''race condition'', d_resolution := Some ''patched'',
               d_resolution := Some ''retested'', d_root_cause := None\<rparr>)"
    by auto
  with h show ?thesis by (simp add: crash_report_def)
qed

end
